theory Spec2Isabelle
  imports Complex_Main "HOL-Library.Sublist"
begin

section \<open>Text\<close>

text \<open>
  A Python \<^verbatim>\<open>str\<close> is a sequence of code points. The model is over the code points
  U+0000 to U+00FF, one \<^typ>\<open>char\<close> each (the range \<^verbatim>\<open>requests\<close> decodes a
  \<^verbatim>\<open>text/event-stream\<close> body to when the server names no charset). The character
  classes below are those of CPython's Unicode tables on that range: \<^verbatim>\<open>str.isspace\<close>
  (which is also what \<^verbatim>\<open>\s\<close> and \<^verbatim>\<open>str.strip()\<close> use) and the word characters
  of \<^verbatim>\<open>\w\<close> in a \<^verbatim>\<open>str\<close> pattern.
\<close>

definition code_in :: "nat \<Rightarrow> nat \<Rightarrow> char \<Rightarrow> bool" where
  "code_in lo hi c = (lo \<le> of_char c \<and> of_char c \<le> (hi::nat))"

definition isspace :: "char \<Rightarrow> bool" where
  "isspace c = (code_in 9 13 c \<or> code_in 28 32 c \<or> code_in 133 133 c \<or> code_in 160 160 c)"

definition is_word :: "char \<Rightarrow> bool" where
  "is_word c =
     (code_in 48 57 c \<or> code_in 65 90 c \<or> c = CHR ''_'' \<or> code_in 97 122 c
      \<or> code_in 170 170 c \<or> code_in 178 179 c \<or> code_in 181 181 c \<or> code_in 185 186 c
      \<or> code_in 188 190 c \<or> code_in 192 214 c \<or> code_in 216 246 c \<or> code_in 248 255 c)"

definition is_upper_AZ :: "char \<Rightarrow> bool" where
  "is_upper_AZ c = code_in 65 90 c"

definition is_lower_az :: "char \<Rightarrow> bool" where
  "is_lower_az c = code_in 97 122 c"

text \<open>\<^verbatim>\<open>s.strip()\<close>: leading and trailing whitespace removed.\<close>

definition strip :: "string \<Rightarrow> string" where
  "strip s = rev (dropWhile isspace (rev (dropWhile isspace s)))"

text \<open>\<^verbatim>\<open>pat in s\<close> on strings: \<open>pat\<close> occurs in \<open>s\<close> as a contiguous run.\<close>

fun contains :: "string \<Rightarrow> string \<Rightarrow> bool" where
  "contains pat [] = (pat = [])"
| "contains pat (c # cs) = (prefix pat (c # cs) \<or> contains pat cs)"

text \<open>
  \<^verbatim>\<open>re.sub(pat, "", s)\<close> for a pattern that is a literal text: every occurrence, found
  from left to right and not overlapping, is deleted.
\<close>

function re_sub_literal :: "string \<Rightarrow> string \<Rightarrow> string" where
  "re_sub_literal pat [] = []"
| "re_sub_literal pat (c # cs) =
     (if pat \<noteq> [] \<and> prefix pat (c # cs) then re_sub_literal pat (drop (length pat) (c # cs))
      else c # re_sub_literal pat cs)"
  by pat_completeness auto
termination
  by (relation "measure (\<lambda>(pat, s). length s)") (auto simp: neq_Nil_conv)

section \<open>The sentence boundary\<close>

text \<open>
  The pattern of \<^verbatim>\<open>_stream_response\<close> is
  \<^verbatim>\<open>(?<!\b\w\.)(?<![A-Z][a-z]\.)(?<=\.|\?)\s\<close>: it matches one whitespace character.
  \<open>sep_match seen c\<close> says whether it matches at the character \<open>c\<close>, where \<open>seen\<close> is
  the text before \<open>c\<close>, last character first:
  \<^item> \<^verbatim>\<open>\s\<close>: \<open>c\<close> is whitespace;
  \<^item> \<^verbatim>\<open>(?<=\.|\?)\<close>: the character before is a full stop or a question mark;
  \<^item> \<^verbatim>\<open>(?<![A-Z][a-z]\.)\<close>: the three characters before are not an ASCII capital, an
    ASCII small letter and a full stop;
  \<^item> \<^verbatim>\<open>(?<!\b\w\.)\<close>: the two characters before are not a word character that starts
    a word (nothing, or a non-word character, before it) and a full stop.
\<close>

definition sep_match :: "string \<Rightarrow> char \<Rightarrow> bool" where
  "sep_match seen c =
     (isspace c
      \<and> (case seen of [] \<Rightarrow> False | p1 # _ \<Rightarrow> p1 = CHR ''.'' \<or> p1 = CHR ''?'')
      \<and> \<not> (case seen of
              p1 # p2 # p3 # _ \<Rightarrow> p1 = CHR ''.'' \<and> is_lower_az p2 \<and> is_upper_AZ p3
            | _ \<Rightarrow> False)
      \<and> \<not> (case seen of
              p1 # p2 # more \<Rightarrow>
                p1 = CHR ''.'' \<and> is_word p2
                \<and> (case more of [] \<Rightarrow> True | p3 # _ \<Rightarrow> \<not> is_word p3)
            | _ \<Rightarrow> False))"

text \<open>
  \<^verbatim>\<open>re.split(pattern, s)\<close>: the pieces of \<open>s\<close> between the matches, the matched
  characters left out. \<open>split_from seen cur rest\<close> scans \<open>rest\<close> with the text already
  scanned in \<open>seen\<close> (reversed) and the piece under construction in \<open>cur\<close>. The result
  always has a last element.
\<close>

fun split_from :: "string \<Rightarrow> string \<Rightarrow> string \<Rightarrow> string list" where
  "split_from seen cur [] = [cur]"
| "split_from seen cur (c # cs) =
     (if sep_match seen c then cur # split_from (c # seen) [] cs
      else split_from (c # seen) (cur @ [c]) cs)"

definition re_split :: "string \<Rightarrow> string list" where
  "re_split s = split_from [] [] s"

text \<open>The characters that \<^verbatim>\<open>re.split\<close> consumed, in order (one for each split).\<close>

fun seps_from :: "string \<Rightarrow> string \<Rightarrow> string" where
  "seps_from seen [] = []"
| "seps_from seen (c # cs) =
     (if sep_match seen c then c # seps_from (c # seen) cs else seps_from (c # seen) cs)"

text \<open>
  One pass of the segmenting statements of \<^verbatim>\<open>_stream_response\<close>:
  \<^verbatim>\<open>
  partial_sentence += data_chunk
  sentences = re.split(..., partial_sentence)
  for complete_sentence in sentences[:-1]:
      yield complete_sentence.strip()
  partial_sentence = sentences[-1]
  \<close>
  The result is the sentences yielded and the new \<^verbatim>\<open>partial_sentence\<close>.
\<close>

definition segment :: "string \<Rightarrow> string \<Rightarrow> string list \<times> string" where
  "segment partial_sentence data_chunk =
     (let sentences = re_split (partial_sentence @ data_chunk)
      in (map strip (butlast sentences), last sentences))"

text \<open>
  The statements after the loop:
  \<^verbatim>\<open>
  if partial_sentence:
      yield partial_sentence.strip()
  \<close>
\<close>

definition flush :: "string \<Rightarrow> string list" where
  "flush partial_sentence = (if partial_sentence \<noteq> [] then [strip partial_sentence] else [])"

text \<open>
  The segmenter alone: the fragments \<open>chunks\<close> fed one after the other, starting from
  the buffer \<open>partial_sentence\<close>. The result is every sentence yielded and the buffer left.
\<close>

fun feed_all :: "string \<Rightarrow> string list \<Rightarrow> string list \<times> string" where
  "feed_all partial_sentence [] = ([], partial_sentence)"
| "feed_all partial_sentence (data_chunk # chunks) =
     (case segment partial_sentence data_chunk of
        (out, partial_sentence') \<Rightarrow>
          (case feed_all partial_sentence' chunks of
             (out', final) \<Rightarrow> (out @ out', final)))"

text \<open>
  Putting a split text together again: each piece followed by the character consumed
  after it.
\<close>

definition rejoin :: "string list \<Rightarrow> string \<Rightarrow> string" where
  "rejoin segs seps = concat (map2 (\<lambda>s w. s @ [w]) segs seps)"

section \<open>Python values and \<^verbatim>\<open>json.loads\<close>\<close>

text \<open>
  The objects \<^verbatim>\<open>json.loads\<close> builds: \<^verbatim>\<open>None\<close>, a \<^verbatim>\<open>bool\<close>, a number (kept as the
  text of its literal; no claim computes with one), a \<^verbatim>\<open>str\<close>, a \<^verbatim>\<open>list\<close>, a
  \<^verbatim>\<open>dict\<close> with \<^verbatim>\<open>str\<close> keys (the members in the order read; a key read twice
  keeps its last value, see \<open>getitem\<close>).
\<close>

datatype py_value =
    PNone
  | PBool bool
  | PNum string
  | PStr string
  | PList "py_value list"
  | PDict "(string \<times> py_value) list"

datatype py_exception =
    ConnectionError
  | HTTPError
  | RequestsJSONDecodeError
  | JSONDecodeError
  | KeyError
  | IndexError
  | TypeError
  | UnboundLocalError
  | ValueError
  | RecursionError

text \<open>
  \<^verbatim>\<open>json.loads\<close> of the standard library (the C scanner, default options) on a
  \<^verbatim>\<open>str\<close>, as a lexer followed by a parser with an explicit stack. The result
  \<open>None\<close> stands for \<^verbatim>\<open>json.JSONDecodeError\<close>. Followed here: whitespace is blank, tab,
  line feed and carriage return only; strings are strict (no control character below
  U+0020, only the escapes of the JSON grammar, four hexadecimal digits after
  \<^verbatim>\<open>\u\<close>); numbers follow \<^verbatim>\<open>-?(0|[1-9][0-9]*)(\.[0-9]+)?([eE][-+]?[0-9]+)?\<close>; the
  constants \<^verbatim>\<open>NaN\<close>, \<^verbatim>\<open>Infinity\<close> and \<^verbatim>\<open>-Infinity\<close> are accepted; anything after the
  value but whitespace is an error.

  \<open>json_loads\<close> is \<^verbatim>\<open>json.loads\<close> on the texts that stay inside three limits, and
  only there: an escape \<^verbatim>\<open>\uXXXX\<close> above U+00FF has no image in the alphabet of the
  model and is refused here, where \<^verbatim>\<open>json.loads\<close> accepts it; an integer beyond the
  interpreter's limit of digits raises \<^verbatim>\<open>ValueError\<close> there, and a nesting beyond its
  recursion limit \<^verbatim>\<open>RecursionError\<close>, neither of which is seen here. It serves for the
  scenarios, whose texts are short and ASCII; what is stated of all lines is stated
  for an arbitrary decoder (see \<open>stream_lines_with\<close>).
\<close>

datatype token =
    TLBrace | TRBrace | TLBracket | TRBracket | TColon | TComma
  | TString string
  | TScalar py_value

datatype num_state = NMinus | NZero | NInt | NDot | NFrac | NE | NESign | NExp

datatype lex_state =
    LStart
  | LStr string
  | LEsc string
  | LUni string string
  | LLit string py_value
  | LNum num_state string

definition is_digit :: "char \<Rightarrow> bool" where
  "is_digit c = code_in 48 57 c"

definition hex_digit :: "char \<Rightarrow> nat option" where
  "hex_digit c =
     (if code_in 48 57 c then Some (of_char c - 48)
      else if code_in 97 102 c then Some (of_char c - 87)
      else if code_in 65 70 c then Some (of_char c - 55)
      else None)"

definition hex_value :: "string \<Rightarrow> nat" where
  "hex_value ds = foldl (\<lambda>n c. 16 * n + (case hex_digit c of None \<Rightarrow> 0 | Some d \<Rightarrow> d)) 0 ds"

definition unescape :: "char \<Rightarrow> char option" where
  "unescape c =
     (if c = CHR ''\"'' \<or> c = CHR 0x5C \<or> c = CHR ''/'' then Some c
      else if c = CHR ''b'' then Some (CHR 0x08)
      else if c = CHR ''f'' then Some (CHR 0x0C)
      else if c = CHR ''n'' then Some (CHR 0x0A)
      else if c = CHR ''r'' then Some (CHR 0x0D)
      else if c = CHR ''t'' then Some (CHR 0x09)
      else None)"

fun num_step :: "num_state \<Rightarrow> char \<Rightarrow> num_state option" where
  "num_step NMinus c =
     (if c = CHR ''0'' then Some NZero else if is_digit c then Some NInt else None)"
| "num_step NZero c =
     (if c = CHR ''.'' then Some NDot
      else if c = CHR ''e'' \<or> c = CHR ''E'' then Some NE else None)"
| "num_step NInt c =
     (if is_digit c then Some NInt
      else if c = CHR ''.'' then Some NDot
      else if c = CHR ''e'' \<or> c = CHR ''E'' then Some NE else None)"
| "num_step NDot c = (if is_digit c then Some NFrac else None)"
| "num_step NFrac c =
     (if is_digit c then Some NFrac
      else if c = CHR ''e'' \<or> c = CHR ''E'' then Some NE else None)"
| "num_step NE c =
     (if c = CHR ''+'' \<or> c = CHR ''-'' then Some NESign
      else if is_digit c then Some NExp else None)"
| "num_step NESign c = (if is_digit c then Some NExp else None)"
| "num_step NExp c = (if is_digit c then Some NExp else None)"

fun num_final :: "num_state \<Rightarrow> bool" where
  "num_final NZero = True"
| "num_final NInt = True"
| "num_final NFrac = True"
| "num_final NExp = True"
| "num_final _ = False"

text \<open>The lexer at the start of a token.\<close>

definition lex_start :: "char \<Rightarrow> (token list \<times> lex_state) option" where
  "lex_start c =
     (if c = CHR '' '' \<or> c = CHR 0x09 \<or> c = CHR 0x0A \<or> c = CHR 0x0D then Some ([], LStart)
      else if c = CHR ''{'' then Some ([TLBrace], LStart)
      else if c = CHR ''}'' then Some ([TRBrace], LStart)
      else if c = CHR ''['' then Some ([TLBracket], LStart)
      else if c = CHR '']'' then Some ([TRBracket], LStart)
      else if c = CHR '':'' then Some ([TColon], LStart)
      else if c = CHR '','' then Some ([TComma], LStart)
      else if c = CHR ''\"'' then Some ([], LStr [])
      else if c = CHR ''n'' then Some ([], LLit ''ull'' PNone)
      else if c = CHR ''t'' then Some ([], LLit ''rue'' (PBool True))
      else if c = CHR ''f'' then Some ([], LLit ''alse'' (PBool False))
      else if c = CHR ''N'' then Some ([], LLit ''aN'' (PNum ''NaN''))
      else if c = CHR ''I'' then Some ([], LLit ''nfinity'' (PNum ''Infinity''))
      else if c = CHR ''-'' then Some ([], LNum NMinus [c])
      else if c = CHR ''0'' then Some ([], LNum NZero [c])
      else if is_digit c then Some ([], LNum NInt [c])
      else None)"

text \<open>
  One character: the tokens completed by it and the next state. Strings and numbers
  are collected in reverse. A number ends at the first character that cannot extend it,
  and that character then starts the next token.
\<close>

fun lex_step :: "lex_state \<Rightarrow> char \<Rightarrow> (token list \<times> lex_state) option" where
  "lex_step LStart c = lex_start c"
| "lex_step (LStr acc) c =
     (if c = CHR ''\"'' then Some ([TString (rev acc)], LStart)
      else if c = CHR 0x5C then Some ([], LEsc acc)
      else if (of_char c :: nat) < 32 then None
      else Some ([], LStr (c # acc)))"
| "lex_step (LEsc acc) c =
     (if c = CHR ''u'' then Some ([], LUni acc [])
      else (case unescape c of None \<Rightarrow> None | Some d \<Rightarrow> Some ([], LStr (d # acc))))"
| "lex_step (LUni acc ds) c =
     (case hex_digit c of
        None \<Rightarrow> None
      | Some _ \<Rightarrow>
          if length ds < 3 then Some ([], LUni acc (ds @ [c]))
          else if hex_value (ds @ [c]) < 256
            then Some ([], LStr (char_of (hex_value (ds @ [c])) # acc))
          else None)"
| "lex_step (LLit [] v) c = None"
| "lex_step (LLit [e] v) c = (if c = e then Some ([TScalar v], LStart) else None)"
| "lex_step (LLit (e # es) v) c = (if c = e then Some ([], LLit es v) else None)"
| "lex_step (LNum ns acc) c =
     (case num_step ns c of
        Some ns' \<Rightarrow> Some ([], LNum ns' (c # acc))
      | None \<Rightarrow>
          if num_final ns then
            (case lex_start c of
               None \<Rightarrow> None
             | Some (ts, st) \<Rightarrow> Some (TScalar (PNum (rev acc)) # ts, st))
          else if ns = NMinus \<and> c = CHR ''I''
            then Some ([], LLit ''nfinity'' (PNum ''-Infinity''))
          else None)"

fun lex_finish :: "lex_state \<Rightarrow> token list option" where
  "lex_finish LStart = Some []"
| "lex_finish (LNum ns acc) = (if num_final ns then Some [TScalar (PNum (rev acc))] else None)"
| "lex_finish _ = None"

fun lex :: "lex_state \<Rightarrow> string \<Rightarrow> token list option" where
  "lex st [] = lex_finish st"
| "lex st (c # cs) =
     (case lex_step st c of
        None \<Rightarrow> None
      | Some (ts, st') \<Rightarrow> (case lex st' cs of None \<Rightarrow> None | Some ts' \<Rightarrow> Some (ts @ ts')))"

text \<open>
  The parser: the containers still open, innermost first, and what may come next.
  \<open>FMem ms k\<close> is an open \<^verbatim>\<open>dict\<close> whose key \<open>k\<close> has been read and whose value is
  awaited.
\<close>

datatype frame =
    FArr "py_value list"
  | FObj "(string \<times> py_value) list"
  | FMem "(string \<times> py_value) list" string

datatype phase =
    PValue
  | PValueOrClose
  | PKeyOrClose
  | PKey
  | PColon
  | PAfter
  | PDone py_value

fun push_value :: "py_value \<Rightarrow> frame list \<Rightarrow> (frame list \<times> phase) option" where
  "push_value v [] = Some ([], PDone v)"
| "push_value v (FArr items # st) = Some (FArr (v # items) # st, PAfter)"
| "push_value v (FMem ms k # st) = Some (FObj ((k, v) # ms) # st, PAfter)"
| "push_value v (FObj ms # st) = None"

fun value_token :: "token \<Rightarrow> frame list \<Rightarrow> (frame list \<times> phase) option" where
  "value_token (TScalar v) st = push_value v st"
| "value_token (TString s) st = push_value (PStr s) st"
| "value_token TLBracket st = Some (FArr [] # st, PValueOrClose)"
| "value_token TLBrace st = Some (FObj [] # st, PKeyOrClose)"
| "value_token _ st = None"

fun key_token :: "token \<Rightarrow> frame list \<Rightarrow> (frame list \<times> phase) option" where
  "key_token (TString k) (FObj ms # st) = Some (FMem ms k # st, PColon)"
| "key_token _ _ = None"

fun parse_step :: "frame list \<times> phase \<Rightarrow> token \<Rightarrow> (frame list \<times> phase) option" where
  "parse_step (st, PValue) t = value_token t st"
| "parse_step (st, PValueOrClose) t =
     (case (t, st) of
        (TRBracket, FArr items # st') \<Rightarrow> push_value (PList (rev items)) st'
      | _ \<Rightarrow> value_token t st)"
| "parse_step (st, PKeyOrClose) t =
     (case (t, st) of
        (TRBrace, FObj ms # st') \<Rightarrow> push_value (PDict (rev ms)) st'
      | _ \<Rightarrow> key_token t st)"
| "parse_step (st, PKey) t = key_token t st"
| "parse_step (st, PColon) t = (case t of TColon \<Rightarrow> Some (st, PValue) | _ \<Rightarrow> None)"
| "parse_step (st, PAfter) t =
     (case (t, st) of
        (TComma, FArr items # st') \<Rightarrow> Some (st, PValue)
      | (TRBracket, FArr items # st') \<Rightarrow> push_value (PList (rev items)) st'
      | (TComma, FObj ms # st') \<Rightarrow> Some (st, PKey)
      | (TRBrace, FObj ms # st') \<Rightarrow> push_value (PDict (rev ms)) st'
      | _ \<Rightarrow> None)"
| "parse_step (st, PDone v) t = None"

fun parse :: "frame list \<times> phase \<Rightarrow> token list \<Rightarrow> py_value option" where
  "parse (st, ph) [] = (case (st, ph) of ([], PDone v) \<Rightarrow> Some v | _ \<Rightarrow> None)"
| "parse (st, ph) (t # ts) =
     (case parse_step (st, ph) t of None \<Rightarrow> None | Some s' \<Rightarrow> parse s' ts)"

definition json_loads :: "string \<Rightarrow> py_value option" where
  "json_loads s = (case lex LStart s of None \<Rightarrow> None | Some ts \<Rightarrow> parse ([], PValue) ts)"

text \<open>
  Subscription \<^verbatim>\<open>x[key]\<close> with a \<^verbatim>\<open>str\<close> key or a non-negative \<^verbatim>\<open>int\<close> index, on the
  values above: a \<^verbatim>\<open>dict\<close> raises \<^verbatim>\<open>KeyError\<close> on a key it has not (its keys are all
  \<^verbatim>\<open>str\<close>), a \<^verbatim>\<open>list\<close> or \<^verbatim>\<open>str\<close> raises \<^verbatim>\<open>IndexError\<close> out of range and
  \<^verbatim>\<open>TypeError\<close> on a \<^verbatim>\<open>str\<close> key, everything else raises \<^verbatim>\<open>TypeError\<close>.
\<close>

datatype subscript = Name string | Index nat

fun getitem :: "py_value \<Rightarrow> subscript \<Rightarrow> py_exception + py_value" where
  "getitem (PDict ms) (Name k) =
     (case map_of (rev ms) k of None \<Rightarrow> Inl KeyError | Some v \<Rightarrow> Inr v)"
| "getitem (PDict ms) (Index i) = Inl KeyError"
| "getitem (PList xs) (Index i) = (if i < length xs then Inr (xs ! i) else Inl IndexError)"
| "getitem (PList xs) (Name k) = Inl TypeError"
| "getitem (PStr s) (Index i) = (if i < length s then Inr (PStr [s ! i]) else Inl IndexError)"
| "getitem (PStr s) (Name k) = Inl TypeError"
| "getitem _ _ = Inl TypeError"

text \<open>A chain of subscriptions \<^verbatim>\<open>x[k1][k2]...\<close>, stopping at the first that raises.\<close>

fun getpath :: "py_value \<Rightarrow> subscript list \<Rightarrow> py_exception + py_value" where
  "getpath x [] = Inr x"
| "getpath x (k # ks) = (case getitem x k of Inl e \<Rightarrow> Inl e | Inr y \<Rightarrow> getpath y ks)"

section \<open>The HTTP exchange\<close>

text \<open>
  What \<^verbatim>\<open>requests.post\<close> does is an input of the model: either it raises (no connection;
  \<^verbatim>\<open>requests.exceptions.ConnectionError\<close>), or it returns a response, of which the code
  reads \<^verbatim>\<open>status_code\<close> (through \<^verbatim>\<open>raise_for_status\<close>), \<^verbatim>\<open>text\<close> and the lines that
  \<^verbatim>\<open>iter_lines(decode_unicode=True, chunk_size=chunk_size)\<close> delivers.
  \<open>response_text\<close> is \<^verbatim>\<open>response.text\<close> of a response read whole, as
  \<^verbatim>\<open>_get_full_response\<close> reads it; what \<^verbatim>\<open>response.text\<close> gives in the middle of a
  streamed body is a separate argument of \<open>stream_response_with\<close>. A connection that
  breaks while the lines are read is not modelled.
\<close>

record response =
  response_status_code :: nat
  response_text :: string
  response_lines :: "string list"

datatype post_outcome = Transport_failure | Responded response

text \<open>
  The classes named by the \<^verbatim>\<open>except\<close> clauses. \<^verbatim>\<open>response.json()\<close> raises
  \<^verbatim>\<open>requests.exceptions.JSONDecodeError\<close> (requests 2.27 and later), which is both a
  \<^verbatim>\<open>RequestException\<close> and a \<^verbatim>\<open>json.JSONDecodeError\<close>.
\<close>

fun is_RequestException :: "py_exception \<Rightarrow> bool" where
  "is_RequestException ConnectionError = True"
| "is_RequestException HTTPError = True"
| "is_RequestException RequestsJSONDecodeError = True"
| "is_RequestException _ = False"

fun is_JSONDecodeError :: "py_exception \<Rightarrow> bool" where
  "is_JSONDecodeError JSONDecodeError = True"
| "is_JSONDecodeError RequestsJSONDecodeError = True"
| "is_JSONDecodeError _ = False"

section \<open>\<^verbatim>\<open>_stream_response\<close>\<close>

text \<open>
  Two things reach the generator from outside and are arguments of the model, so that
  what is proved of it holds whatever they do. \<open>loads\<close> is \<^verbatim>\<open>json.loads\<close>: for each
  text, the value it returns (\<open>Inr\<close>) or the exception it raises (\<open>Inl\<close>), which need
  not be \<^verbatim>\<open>JSONDecodeError\<close> (an integer of too many digits raises \<^verbatim>\<open>ValueError\<close>, a
  text nested too deeply \<^verbatim>\<open>RecursionError\<close>). \<open>unread\<close> is what \<^verbatim>\<open>response.text\<close>
  gives at the moment the second handler reads it: the part of the streamed body that
  the loop has not read yet.

  The loop over the lines, from the buffer \<open>partial_sentence\<close>:
  \<^verbatim>\<open>
  for value in response.iter_lines(...):
      modified_value = re.sub("data:", "", value)
      if modified_value and "[DONE]" not in modified_value:
          json_modified_value = json.loads(modified_value)
          try:
              if json_modified_value["choices"][0]["delta"]["content"] != None:
                  data_chunk = json_modified_value["choices"][0]["delta"]["content"]
                  partial_sentence += data_chunk
                  ... (see segment)
          except:
              continue
  \<close>
  The result is the sentences yielded and how the loop ends: \<open>Inr\<close> the buffer when the
  lines are exhausted, \<open>Inl\<close> the exception that leaves the loop. \<^verbatim>\<open>json.loads\<close> is
  called outside the inner \<^verbatim>\<open>try\<close>, so its exception leaves the loop. Inside the
  \<^verbatim>\<open>try\<close>, a failing subscription is caught and the line skipped; a content that is
  \<^verbatim>\<open>None\<close> fails the test; a content that is neither \<^verbatim>\<open>None\<close> nor a \<^verbatim>\<open>str\<close> makes
  \<^verbatim>\<open>partial_sentence += data_chunk\<close> raise \<^verbatim>\<open>TypeError\<close>, caught as well, with the
  buffer as it was. (Writing to the standard output is not modelled.)
\<close>

fun stream_lines_with ::
  "(string \<Rightarrow> py_exception + py_value) \<Rightarrow> string \<Rightarrow> string list
     \<Rightarrow> string list \<times> (py_exception + string)" where
  "stream_lines_with loads partial_sentence [] = ([], Inr partial_sentence)"
| "stream_lines_with loads partial_sentence (value # rest) =
     (let modified_value = re_sub_literal ''data:'' value in
      if modified_value \<noteq> [] \<and> \<not> contains ''[DONE]'' modified_value then
        (case loads modified_value of
           Inl raised \<Rightarrow> ([], Inl raised)
         | Inr json_modified_value \<Rightarrow>
             (case getpath json_modified_value
                     [Name ''choices'', Index 0, Name ''delta'', Name ''content''] of
                Inl e \<Rightarrow> stream_lines_with loads partial_sentence rest
              | Inr PNone \<Rightarrow> stream_lines_with loads partial_sentence rest
              | Inr (PStr data_chunk) \<Rightarrow>
                  (case segment partial_sentence data_chunk of
                     (out, partial_sentence') \<Rightarrow>
                       (case stream_lines_with loads partial_sentence' rest of
                          (out', ending) \<Rightarrow> (out @ out', ending)))
              | Inr _ \<Rightarrow> stream_lines_with loads partial_sentence rest))
      else stream_lines_with loads partial_sentence rest)"

text \<open>
  The whole generator: what it yields, and the exception that leaves it, if any.
  \<^verbatim>\<open>
  partial_sentence = ""
  try:
      response = requests.post(...)
      for value in ...: ...
      if partial_sentence:
          yield partial_sentence.strip()
  except json.JSONDecodeError:
      pass
  except Exception as e:
      print("Error:", e)
      yield "Response content: " + response.text
  \<close>
  When \<^verbatim>\<open>requests.post\<close> raised, no handler matches but the second, the name
  \<^verbatim>\<open>response\<close> is not bound, and the handler raises \<^verbatim>\<open>UnboundLocalError\<close> on reading
  it. An exception of \<open>loads\<close> that is a \<^verbatim>\<open>JSONDecodeError\<close> ends the generator
  silently, without the flush; any other yields one more text and ends it.
\<close>

definition stream_response_with ::
  "(string \<Rightarrow> py_exception + py_value) \<Rightarrow> string \<Rightarrow> post_outcome
     \<Rightarrow> string list \<times> py_exception option" where
  "stream_response_with loads unread posted =
     (case posted of
        Transport_failure \<Rightarrow> ([], Some UnboundLocalError)
      | Responded r \<Rightarrow>
          (case stream_lines_with loads [] (response_lines r) of
             (out, Inr partial_sentence) \<Rightarrow> (out @ flush partial_sentence, None)
           | (out, Inl e) \<Rightarrow>
               if is_JSONDecodeError e then (out, None)
               else (out @ [''Response content: '' @ unread], None)))"

text \<open>
  The generator with \<open>json_loads\<close> as the decoder, for the scenarios (short ASCII
  lines, where \<open>json_loads\<close> is \<^verbatim>\<open>json.loads\<close>). With this decoder nothing but
  \<^verbatim>\<open>JSONDecodeError\<close> leaves the loop, so \<open>unread\<close> plays no part (see
  \<open>stream_response_instance\<close>). Every statement below that ranges over all lines is
  made of \<open>stream_lines_with\<close> and \<open>stream_response_with\<close>, for every decoder.
\<close>

definition json_loads_raising :: "string \<Rightarrow> py_exception + py_value" where
  "json_loads_raising s = (case json_loads s of None \<Rightarrow> Inl JSONDecodeError | Some v \<Rightarrow> Inr v)"

definition stream_lines :: "string \<Rightarrow> string list \<Rightarrow> string list \<times> (py_exception + string)" where
  "stream_lines partial_sentence lines = stream_lines_with json_loads_raising partial_sentence lines"

definition stream_response :: "post_outcome \<Rightarrow> string list \<times> py_exception option" where
  "stream_response posted = stream_response_with json_loads_raising [] posted"

section \<open>\<^verbatim>\<open>_get_full_response\<close>\<close>

text \<open>
  \<^verbatim>\<open>
  try:
      response = requests.post(api_url, headers=headers, json=payload)
      response.raise_for_status()
      return response.json()['choices'][0]['message']['content']
  except requests.exceptions.RequestException as e:
      if response is not None and hasattr(response, 'text'):
          return f"Response content: {response.text}"
      else:
          return "An error occurred while fetching the response."
  except json.JSONDecodeError: pass
  except KeyError as e:
      if response is not None and hasattr(response, 'text'):
          return f"Error parsing response: {response.text}"
      else:
          return "An error occurred while parsing the response."
  \<close>
  \<^verbatim>\<open>raise_for_status\<close> raises \<^verbatim>\<open>HTTPError\<close> for a status from 400 to 599. A handler
  that reads \<^verbatim>\<open>response\<close> while it is unbound raises \<^verbatim>\<open>UnboundLocalError\<close>; a bound
  \<^verbatim>\<open>response\<close> is a response object, which is not \<^verbatim>\<open>None\<close> and has \<^verbatim>\<open>text\<close>, so
  the two \<^verbatim>\<open>else\<close> branches are never taken. \<^verbatim>\<open>IndexError\<close> and \<^verbatim>\<open>TypeError\<close>
  have no handler. The result is \<open>Inl\<close> the exception that leaves the function or
  \<open>Inr\<close> the value returned (\<open>PNone\<close> after \<^verbatim>\<open>pass\<close>).
\<close>

definition get_full_response :: "post_outcome \<Rightarrow> py_exception + py_value" where
  "get_full_response posted =
     (let response = (case posted of Transport_failure \<Rightarrow> None | Responded r \<Rightarrow> Some r);
          attempt = (case posted of
                       Transport_failure \<Rightarrow> Inl ConnectionError
                     | Responded r \<Rightarrow>
                         if 400 \<le> response_status_code r \<and> response_status_code r < 600
                         then Inl HTTPError
                         else (case json_loads (response_text r) of
                                 None \<Rightarrow> Inl RequestsJSONDecodeError
                               | Some body \<Rightarrow>
                                   getpath body
                                     [Name ''choices'', Index 0, Name ''message'', Name ''content'']))
      in case attempt of
           Inr v \<Rightarrow> Inr v
         | Inl e \<Rightarrow>
             if is_RequestException e then
               (case response of
                  None \<Rightarrow> Inl UnboundLocalError
                | Some r \<Rightarrow> Inr (PStr (''Response content: '' @ response_text r)))
             else if is_JSONDecodeError e then Inr PNone
             else if e = KeyError then
               (case response of
                  None \<Rightarrow> Inl UnboundLocalError
                | Some r \<Rightarrow> Inr (PStr (''Error parsing response: '' @ response_text r)))
             else Inl e)"

section \<open>\<^verbatim>\<open>generate\<close>\<close>

record message =
  role :: string
  content :: string

text \<open>The \<^verbatim>\<open>payload\<close> dictionary, one field for each key.\<close>

record payload =
  payload_model :: string
  payload_messages :: "message list"
  payload_temperature :: real
  payload_max_tokens :: int
  payload_stop :: "string list"
  payload_stream :: bool

text \<open>
  The body of \<^verbatim>\<open>generate\<close> contains \<^verbatim>\<open>yield from\<close>, so \<^verbatim>\<open>generate\<close> is a generator
  function: calling it runs none of the body and returns a generator object, whatever
  the arguments; the body runs when the caller iterates that object, and a
  \<^verbatim>\<open>return x\<close> in it ends the iteration, with \<open>x\<close> carried by \<^verbatim>\<open>StopIteration\<close>.

  \<open>generate_body\<close> is the body run to its end: the caller's list after
  \<^verbatim>\<open>conversation_history.insert(0, ...)\<close>, the payload handed to \<^verbatim>\<open>requests.post\<close>
  (its \<^verbatim>\<open>messages\<close> is that same list), the sentences yielded, and how the generator
  ends. \<open>posted\<close> is the outcome of the one \<^verbatim>\<open>requests.post\<close> the body makes.
\<close>

datatype generator_end = StopIteration py_value | Raised py_exception

record generator_run =
  history_after :: "message list"
  request_json :: payload
  yielded :: "string list"
  ended :: generator_end

definition generate_body ::
  "message list \<Rightarrow> string \<Rightarrow> string \<Rightarrow> int \<Rightarrow> real \<Rightarrow> bool \<Rightarrow> int \<Rightarrow> post_outcome \<Rightarrow> generator_run" where
  "generate_body conversation_history model system_prompt max_tokens temperature stream chunk_size
       posted =
     (let conversation_history' =
            \<lparr>role = ''system'', content = system_prompt\<rparr> # conversation_history;
          payload = \<lparr>payload_model = model, payload_messages = conversation_history',
                     payload_temperature = temperature, payload_max_tokens = max_tokens,
                     payload_stop = [], payload_stream = True\<rparr>
      in if stream then
           (case stream_response posted of
              (out, raised) \<Rightarrow>
                \<lparr>history_after = conversation_history', request_json = payload, yielded = out,
                 ended = (case raised of None \<Rightarrow> StopIteration PNone | Some e \<Rightarrow> Raised e)\<rparr>)
         else
           \<lparr>history_after = conversation_history', request_json = payload, yielded = [],
            ended = (case get_full_response posted of
                       Inl e \<Rightarrow> Raised e
                     | Inr v \<Rightarrow> StopIteration v)\<rparr>)"

text \<open>
  What the call expression \<^verbatim>\<open>generate(...)\<close> evaluates to: \<open>Returned v\<close> would be an
  ordinary value, \<open>Generator run\<close> is a generator object, \<open>run\<close> being what iterating
  it to its end does.
\<close>

datatype call_result = Returned py_value | Generator generator_run

definition generate ::
  "message list \<Rightarrow> string \<Rightarrow> string \<Rightarrow> int \<Rightarrow> real \<Rightarrow> bool \<Rightarrow> int \<Rightarrow> post_outcome \<Rightarrow> call_result" where
  "generate conversation_history model system_prompt max_tokens temperature stream chunk_size
       posted =
     Generator (generate_body conversation_history model system_prompt max_tokens temperature
                  stream chunk_size posted)"


text \<open>
  \<open>content_line loads l chunk\<close>: the line \<open>l\<close> is one that the loop of
  \<^verbatim>\<open>_stream_response\<close> decodes, with the decoder \<open>loads\<close>, to the \<^verbatim>\<open>str\<close> content
  \<open>chunk\<close>.
\<close>

definition content_line :: "(string \<Rightarrow> py_exception + py_value) \<Rightarrow> string \<Rightarrow> string \<Rightarrow> bool" where
  "content_line loads l chunk =
     (re_sub_literal ''data:'' l \<noteq> []
      \<and> \<not> contains ''[DONE]'' (re_sub_literal ''data:'' l)
      \<and> (case loads (re_sub_literal ''data:'' l) of
           Inl e \<Rightarrow> False
         | Inr j \<Rightarrow>
             getpath j [Name ''choices'', Index 0, Name ''delta'', Name ''content'']
               = Inr (PStr chunk)))"

section \<open>Properties of the segmenter\<close>

lemma rejoin_append:
  "length a = length c \<Longrightarrow> rejoin (a @ b) (c @ d) = rejoin a c @ rejoin b d"
  by (simp add: rejoin_def)

lemma split_from_nonempty: "split_from seen cur rest \<noteq> []"
  by (induction rest arbitrary: seen cur) auto

lemma split_from_length:
  "length (split_from seen cur rest) = Suc (length (seps_from seen rest))"
  by (induction rest arbitrary: seen cur) auto

lemma seps_from_space: "list_all isspace (seps_from seen rest)"
  by (induction rest arbitrary: seen) (auto simp: sep_match_def)

lemma split_from_rejoin:
  "rejoin (butlast (split_from seen cur rest)) (seps_from seen rest)
     @ last (split_from seen cur rest) = cur @ rest"
  by (induction rest arbitrary: seen cur) (auto simp: split_from_nonempty rejoin_def)

lemma feed_all_Cons:
  "feed_all p (f # fs) =
     (map strip (butlast (re_split (p @ f))) @ fst (feed_all (last (re_split (p @ f))) fs),
      snd (feed_all (last (re_split (p @ f))) fs))"
  by (simp add: segment_def Let_def split: prod.splits)

lemma feed_all_rejoin:
  "\<exists>segs seps. length seps = length segs \<and> list_all isspace seps
     \<and> fst (feed_all p fs) = map strip segs
     \<and> rejoin segs seps @ snd (feed_all p fs) = p @ concat fs"
proof (induction fs arbitrary: p)
  case Nil
  show ?case by (rule exI [of _ "[]"], rule exI [of _ "[]"]) (simp add: rejoin_def)
next
  case (Cons f fs)
  let ?S = "re_split (p @ f)"
  let ?w = "seps_from [] (p @ f)"
  obtain segs seps where ih: "length seps = length segs" "list_all isspace seps"
    "fst (feed_all (last ?S) fs) = map strip segs"
    "rejoin segs seps @ snd (feed_all (last ?S) fs) = last ?S @ concat fs"
    using Cons.IH [of "last ?S"] by blast
  have len: "length ?w = length (butlast ?S)"
    by (simp add: re_split_def split_from_length)
  have here: "rejoin (butlast ?S) ?w @ last ?S = p @ f"
    using split_from_rejoin [of "[]" "[]" "p @ f"] by (simp add: re_split_def)
  have out: "fst (feed_all p (f # fs)) = map strip (butlast ?S @ segs)"
    using ih(3) by (simp add: feed_all_Cons del: feed_all.simps)
  have fin: "snd (feed_all p (f # fs)) = snd (feed_all (last ?S) fs)"
    by (simp add: feed_all_Cons del: feed_all.simps)
  have "rejoin (butlast ?S @ segs) (?w @ seps) @ snd (feed_all p (f # fs))
      = rejoin (butlast ?S) ?w @ (rejoin segs seps @ snd (feed_all (last ?S) fs))"
    using len by (simp only: rejoin_append fin append_assoc)
  also have "\<dots> = rejoin (butlast ?S) ?w @ last ?S @ concat fs"
    by (simp add: ih(4))
  also have "\<dots> = p @ concat (f # fs)"
    using here by (metis append.assoc concat.simps(2))
  finally have rec: "rejoin (butlast ?S @ segs) (?w @ seps) @ snd (feed_all p (f # fs))
      = p @ concat (f # fs)" .
  have l2: "length (?w @ seps) = length (butlast ?S @ segs)" using len ih(1) by simp
  have sp: "list_all isspace (?w @ seps)" using ih(2) by (simp add: seps_from_space)
  show ?case using l2 sp out rec by blast
qed

text \<open>
  C1, as stated: the sentences yielded, with one whitespace character put back after
  each, followed by the flushed buffer, give back the text that was fed. This fails,
  because every sentence and the flushed buffer are yielded through \<^verbatim>\<open>strip()\<close>: fed
  the one fragment \<open>'' a''\<close>, the segmenter yields no sentence (so there is no split
  point to put a character back at) and flushes \<open>''a''\<close>, and the leading blank is gone.
\<close>

theorem C1_reconstruction_counterexample:
  "fst (feed_all [] ['' a'']) = []
   \<and> flush (snd (feed_all [] ['' a''])) = [''a'']
   \<and> concat (fst (feed_all [] ['' a''])) @ concat (flush (snd (feed_all [] ['' a'']))) \<noteq> concat ['' a'']"
  by (simp add: segment_def re_split_def sep_match_def flush_def strip_def isspace_def code_in_def)

text \<open>
  C1, amended: for every sequence of fragments fed to a fresh segmenter there are
  pieces \<open>segs\<close> and whitespace characters \<open>seps\<close>, one for each piece, such that the
  sentences yielded are the pieces with \<^verbatim>\<open>strip()\<close> applied, in order, and the pieces,
  each followed by its whitespace character, followed by the buffer left, are exactly
  the concatenation of the fragments in arrival order. What the end of the stream
  yields is that buffer with \<^verbatim>\<open>strip()\<close> applied, when it is not empty. So nothing but
  the one whitespace character of each split point, and the whitespace that \<^verbatim>\<open>strip()\<close>
  removes at the two ends of a piece, is dropped, and nothing is duplicated.
\<close>

theorem C1_reconstruction_untrimmed:
  "(\<exists>segs seps. length seps = length segs \<and> list_all isspace seps
      \<and> fst (feed_all [] fs) = map strip segs
      \<and> rejoin segs seps @ snd (feed_all [] fs) = concat fs)
   \<and> flush (snd (feed_all [] fs))
       = (if snd (feed_all [] fs) = [] then [] else [strip (snd (feed_all [] fs))])"
proof
  show "\<exists>segs seps. length seps = length segs \<and> list_all isspace seps
      \<and> fst (feed_all [] fs) = map strip segs
      \<and> rejoin segs seps @ snd (feed_all [] fs) = concat fs"
    using feed_all_rejoin [of "[]" fs] by simp
  show "flush (snd (feed_all [] fs))
       = (if snd (feed_all [] fs) = [] then [] else [strip (snd (feed_all [] fs))])"
    by (simp add: flush_def)
qed

text \<open>
  C5, as stated, has the sentence ending at \<open>''home.''\<close> split off when the fragment is
  fed. No whitespace follows that full stop, so the pattern does not match there:
  feeding the fragment yields no sentence at all.
\<close>

theorem C5_home_counterexample:
  "fst (feed_all [] [''Dr. Smith went home.'']) = []"
  by code_simp

text \<open>
  C5, amended: feeding \<open>''Dr. Smith went home.''\<close> to a fresh segmenter splits nowhere
  (not after \<open>''Dr.''\<close>, by the guard on a capital and a small letter, and not after
  \<open>''home.''\<close>, which no whitespace follows): nothing is yielded, the whole fragment stays
  in the buffer, and the end of the stream yields it as the one sentence. The same holds
  of \<open>''I saw x. That was odd.''\<close> (no split after \<open>''x.''\<close>, by the guard on a single
  word character). With a blank after \<open>''home.''\<close> the sentence is split off when fed,
  still with no split after \<open>''Dr.''\<close>.
\<close>

theorem C5_abbreviation_guards:
  "feed_all [] [''Dr. Smith went home.''] = ([], ''Dr. Smith went home.'')
   \<and> flush ''Dr. Smith went home.'' = [''Dr. Smith went home.'']
   \<and> feed_all [] [''I saw x. That was odd.''] = ([], ''I saw x. That was odd.'')
   \<and> flush ''I saw x. That was odd.'' = [''I saw x. That was odd.'']
   \<and> feed_all [] [''Dr. Smith went home. ''] = ([''Dr. Smith went home.''], [])"
  by code_simp

section \<open>Properties of \<^verbatim>\<open>_stream_response\<close>\<close>

text \<open>
  The segmenter inside the loop: when every line decodes to a \<^verbatim>\<open>str\<close> content, the loop
  is \<open>feed_all\<close> on those contents.
\<close>

lemma stream_lines_feed_all:
  "list_all2 (content_line loads) lines chunks \<Longrightarrow>
   stream_lines_with loads p lines = (fst (feed_all p chunks), Inr (snd (feed_all p chunks)))"
proof (induction lines chunks arbitrary: p rule: list_all2_induct)
  case Nil
  show ?case by simp
next
  case (Cons l ls f fs)
  from Cons.hyps(1) obtain j where
    ne: "re_sub_literal ''data:'' l \<noteq> []"
    and nd: "\<not> contains ''[DONE]'' (re_sub_literal ''data:'' l)"
    and js: "loads (re_sub_literal ''data:'' l) = Inr j"
    and gp: "getpath j [Name ''choices'', Index 0, Name ''delta'', Name ''content''] = Inr (PStr f)"
    by (auto simp: content_line_def split: sum.splits)
  show ?case
    using ne nd js gp Cons.IH [of "snd (segment p f)"]
    by (simp add: Let_def case_prod_beta)
qed

lemma stream_lines_only_decode_error:
  "stream_lines_with json_loads_raising p ls = (out, Inl e) \<Longrightarrow> e = JSONDecodeError"
proof (induction ls arbitrary: p out)
  case Nil
  then show ?case by simp
next
  case (Cons l ls)
  then show ?case
    by (auto simp: Let_def json_loads_raising_def
          split: if_splits option.splits sum.splits py_value.splits prod.splits)
qed

lemma stream_response_instance:
  "stream_response_with json_loads_raising unread posted = stream_response posted"
proof (cases posted)
  case Transport_failure
  then show ?thesis by (simp add: stream_response_with_def stream_response_def)
next
  case (Responded r)
  obtain out ending where
    run: "stream_lines_with json_loads_raising [] (response_lines r) = (out, ending)"
    by (cases "stream_lines_with json_loads_raising [] (response_lines r)")
  show ?thesis
  proof (cases ending)
    case (Inl e)
    with run have "e = JSONDecodeError" using stream_lines_only_decode_error by blast
    with Inl run Responded show ?thesis
      by (simp add: stream_response_with_def stream_response_def)
  next
    case (Inr b)
    with run Responded show ?thesis
      by (simp add: stream_response_with_def stream_response_def)
  qed
qed

lemma stream_response_lines:
  "stream_response (Responded r) =
     (case stream_lines [] (response_lines r) of
        (out, Inr partial_sentence) \<Rightarrow> (out @ flush partial_sentence, None)
      | (out, Inl e) \<Rightarrow> (out, None))"
proof -
  obtain out ending where
    run: "stream_lines_with json_loads_raising [] (response_lines r) = (out, ending)"
    by (cases "stream_lines_with json_loads_raising [] (response_lines r)")
  show ?thesis
  proof (cases ending)
    case (Inl e)
    with run have "e = JSONDecodeError" using stream_lines_only_decode_error by blast
    with Inl run show ?thesis
      by (simp add: stream_response_with_def stream_response_def stream_lines_def)
  next
    case (Inr b)
    with run show ?thesis
      by (simp add: stream_response_with_def stream_response_def stream_lines_def)
  qed
qed

lemma lines_nice_done:
  "stream_lines []
     [''data: {\"choices\":[{\"delta\":{\"content\":\"Nice to \"}}]}'',
      ''data: {\"choices\":[{\"delta\":{\"content\":\"meet you. \"}}]}'',
      ''data: [DONE]''] = ([''Nice to meet you.''], Inr [])"
  by code_simp



lemma lines_one_bad_two:
  "stream_lines []
     [''data: {\"choices\":[{\"delta\":{\"content\":\"One more. \"}}]}'',
      ''data: {oops'',
      ''data: {\"choices\":[{\"delta\":{\"content\":\"Two more. \"}}]}'']
   = ([''One more.''], Inl JSONDecodeError)"
  by code_simp

lemma lines_one_two:
  "stream_lines []
     [''data: {\"choices\":[{\"delta\":{\"content\":\"One more. \"}}]}'',
      ''data: {\"choices\":[{\"delta\":{\"content\":\"Two more. \"}}]}'']
   = ([''One more.'', ''Two more.''], Inr [])"
  by code_simp

lemma lines_marker_inside:
  "stream_lines [] [''data: {\"choices\":[{\"delta\":{\"content\":\"No data: here. \"}}]}'']
   = ([''No  here.''], Inr [])"
  by code_simp

text \<open>
  C6: the three lines of the scenario make the generator yield the one sentence
  \<open>''Nice to meet you.''\<close> and end, whatever else the response holds.
\<close>

theorem C6_nice_to_meet_you:
  "stream_response (Responded (r\<lparr>response_lines :=
     [''data: {\"choices\":[{\"delta\":{\"content\":\"Nice to \"}}]}'',
      ''data: {\"choices\":[{\"delta\":{\"content\":\"meet you. \"}}]}'',
      ''data: [DONE]'']\<rparr>)) = ([''Nice to meet you.''], None)"
  by (simp add: stream_response_lines lines_nice_done flush_def)







text \<open>
  C3 (the code departs from it): a line that \<^verbatim>\<open>json.loads\<close> refuses ends the generator.
  \<^verbatim>\<open>json.loads\<close> is called outside the inner \<^verbatim>\<open>try\<close>, its exception reaches
  \<^verbatim>\<open>except json.JSONDecodeError: pass\<close>, and nothing more is yielded: here the sentence
  of the third line is lost, where the same response without the second line yields both.
\<close>

theorem C3_malformed_line_ends_stream:
  "json_loads (re_sub_literal ''data:'' ''data: {oops'') = None
   \<and> stream_response (Responded (r\<lparr>response_lines :=
        [''data: {\"choices\":[{\"delta\":{\"content\":\"One more. \"}}]}'',
         ''data: {oops'',
         ''data: {\"choices\":[{\"delta\":{\"content\":\"Two more. \"}}]}'']\<rparr>))
       = ([''One more.''], None)
   \<and> stream_response (Responded (r\<lparr>response_lines :=
        [''data: {\"choices\":[{\"delta\":{\"content\":\"One more. \"}}]}'',
         ''data: {\"choices\":[{\"delta\":{\"content\":\"Two more. \"}}]}'']\<rparr>))
       = ([''One more.'', ''Two more.''], None)"
proof -
  have "json_loads (re_sub_literal ''data:'' ''data: {oops'') = None" by code_simp
  then show ?thesis
    by (simp add: stream_response_lines lines_one_bad_two lines_one_two flush_def
         )
qed

text \<open>
  C8 (the code departs from it): \<^verbatim>\<open>re.sub("data:", "", value)\<close> deletes the marker
  wherever it stands in the line, also inside the content, and the sentence yielded has
  lost it.
\<close>

theorem C8_marker_removed_everywhere:
  "re_sub_literal ''data:'' ''data: {\"choices\":[{\"delta\":{\"content\":\"No data: here. \"}}]}''
     = '' {\"choices\":[{\"delta\":{\"content\":\"No  here. \"}}]}''
   \<and> stream_response (Responded (r\<lparr>response_lines :=
        [''data: {\"choices\":[{\"delta\":{\"content\":\"No data: here. \"}}]}'']\<rparr>))
       = ([''No  here.''], None)"
proof -
  have "re_sub_literal ''data:'' ''data: {\"choices\":[{\"delta\":{\"content\":\"No data: here. \"}}]}''
     = '' {\"choices\":[{\"delta\":{\"content\":\"No  here. \"}}]}''"
    by code_simp
  then show ?thesis
    by (simp add: stream_response_lines lines_marker_inside flush_def)
qed

section \<open>Properties of \<^verbatim>\<open>_get_full_response\<close> and \<^verbatim>\<open>generate\<close>\<close>

lemma full_response_hi_there:
  "json_loads ''{\"choices\":[{\"message\":{\"content\":\"Hi there\"}}]}''
     = Some (PDict [(''choices'', PList [PDict [(''message'', PDict [(''content'', PStr ''Hi there'')])]])])"
  by code_simp

lemma full_response_no_choice:
  "json_loads ''{\"choices\":[]}'' = Some (PDict [(''choices'', PList [])])"
  by code_simp

lemma get_full_response_http_error:
  "400 \<le> response_status_code r \<Longrightarrow> response_status_code r < 600 \<Longrightarrow>
   get_full_response (Responded r) = Inr (PStr (''Response content: '' @ response_text r))"
  by (simp add: get_full_response_def)

lemma get_full_response_not_json:
  "\<not> (400 \<le> response_status_code r \<and> response_status_code r < 600) \<Longrightarrow>
   json_loads (response_text r) = None \<Longrightarrow>
   get_full_response (Responded r) = Inr (PStr (''Response content: '' @ response_text r))"
  by (simp add: get_full_response_def)

text \<open>
  C2 (the code departs from it): with \<^verbatim>\<open>stream=False\<close> and the body of the scenario, the
  call returns a generator object; iterated, it yields nothing, and the text
  \<open>''Hi there''\<close> that \<^verbatim>\<open>_get_full_response\<close> returned is only the value carried by the
  \<^verbatim>\<open>StopIteration\<close> that ends it.
\<close>

theorem C2_nonstreaming_call_is_generator:
  "generate h m sp mt t False cs
     (Responded \<lparr>response_status_code = 200,
                 response_text = ''{\"choices\":[{\"message\":{\"content\":\"Hi there\"}}]}'',
                 response_lines = ls\<rparr>)
   = Generator
       \<lparr>history_after = \<lparr>role = ''system'', content = sp\<rparr> # h,
        request_json =
          \<lparr>payload_model = m, payload_messages = \<lparr>role = ''system'', content = sp\<rparr> # h,
           payload_temperature = t, payload_max_tokens = mt, payload_stop = [],
           payload_stream = True\<rparr>,
        yielded = [],
        ended = StopIteration (PStr ''Hi there'')\<rparr>"
  by (simp add: generate_def generate_body_def get_full_response_def full_response_hi_there
        Let_def)

text \<open>
  C4 (the code departs from it): when \<^verbatim>\<open>requests.post\<close> raises, the handler reads the
  unbound \<^verbatim>\<open>response\<close> and \<^verbatim>\<open>UnboundLocalError\<close> leaves the function; and a body whose
  \<^verbatim>\<open>choices\<close> is an empty list makes \<^verbatim>\<open>[0]\<close> raise \<^verbatim>\<open>IndexError\<close>, for which there is
  no handler.
\<close>

theorem C4_fetch_faults_propagate:
  "get_full_response Transport_failure = Inl UnboundLocalError
   \<and> get_full_response
        (Responded \<lparr>response_status_code = 200, response_text = ''{\"choices\":[]}'',
                    response_lines = ls\<rparr>) = Inl IndexError"
  by (simp add: get_full_response_def full_response_no_choice)

text \<open>
  C9: when the body of \<^verbatim>\<open>generate\<close> runs, the caller's list becomes the message
  \<open>\<lparr>role = ''system'', content = system_prompt\<rparr>\<close> followed by the list as it was, and
  that is the \<^verbatim>\<open>messages\<close> of the payload sent; the body touches the list nowhere else.
\<close>

theorem C9_history_prepended:
  "generate h m sp mt t s cs w = Generator (generate_body h m sp mt t s cs w)
   \<and> history_after (generate_body h m sp mt t s cs w) = \<lparr>role = ''system'', content = sp\<rparr> # h
   \<and> payload_messages (request_json (generate_body h m sp mt t s cs w))
       = \<lparr>role = ''system'', content = sp\<rparr> # h"
  by (simp add: generate_def generate_body_def Let_def split: prod.splits)

text \<open>
  C10: the payload's \<^verbatim>\<open>stream\<close> is \<^verbatim>\<open>True\<close> whatever the argument \<^verbatim>\<open>stream\<close>, and the
  payload is the same for both values of the argument; the argument only chooses between
  yielding the sentences of \<^verbatim>\<open>_stream_response\<close> and ending with the value of
  \<^verbatim>\<open>_get_full_response\<close>.
\<close>

theorem C10_payload_stream_constant:
  "payload_stream (request_json (generate_body h m sp mt t s cs w)) = True
   \<and> request_json (generate_body h m sp mt t True cs w)
       = request_json (generate_body h m sp mt t False cs w)
   \<and> yielded (generate_body h m sp mt t True cs w) = fst (stream_response w)
   \<and> yielded (generate_body h m sp mt t False cs w) = []
   \<and> ended (generate_body h m sp mt t False cs w)
       = (case get_full_response w of Inl e \<Rightarrow> Raised e | Inr v \<Rightarrow> StopIteration v)"
  by (simp add: generate_body_def Let_def split: prod.splits)

end
